theory Spec2Isabelle
  imports Main "HOL-Library.AList" "HOL-Library.Sublist"
begin

section \<open>Data model (src/data_models.py)\<close>

text \<open>
  The two pydantic models. A Python \<open>str\<close> is a \<open>string\<close> whose characters stand for
  code points (text is restricted to code points below 256). The field \<open>id\<close> is called
  \<open>paper_id\<close> because \<open>id\<close> is the identity function of HOL. A Python \<open>dict\<close> is an
  association list in insertion order.
\<close>

record PaperCandidate =
  paper_id :: string
  url :: string
  pdf_url :: string
  title :: string
  abstract :: string
  authors :: "string list"
  source :: string

record AnalyzedPaper =
  metadata :: PaperCandidate
  keywords_list :: "string list"
  analysis_qa :: "(string \<times> string) list"
  resource_links :: "(string \<times> string) list"
  summary :: string

section \<open>Exceptions, files and the outside world\<close>

text \<open>
  Every exception the modelled code can meet is a value. Logging calls are not modelled:
  they write to the log stream of the process and touch neither the pipeline state nor a
  file.
\<close>

datatype exn =
    AttributeError
  | TypeError
  | KeyError
  | UnicodeDecodeError
  | ValueError
  | JSONDecodeError
  | IOError
  | RequestError
  | HTTPStatusError
  | ValidationError
  | OtherException string

text \<open>
  A decoded JSON document, as \<open>json.load\<close> hands it to the program. An object keeps its
  members in document order; a later member with the same key wins, as in the Python
  \<open>dict\<close> the decoder builds. Numbers are integers here.
\<close>

datatype json =
    JNull
  | JBool bool
  | JNum int
  | JStr string
  | JArr "json list"
  | JObj "(string \<times> json) list"

text \<open>
  What can be found at the path \<open>processed_papers_cache.json\<close>: no file; a file that
  \<open>open\<close> or \<open>read\<close> refuses with an \<open>IOError\<close>; bytes that are not UTF-8; text that is
  not JSON; JSON text with an integer literal too long for \<open>int\<close> (more than 4300
  digits), which the decoder refuses with a plain \<open>ValueError\<close>; or a JSON document.
\<close>

datatype cache_file =
    Absent
  | Unopenable
  | Undecodable
  | Malformed
  | Overlong
  | Holds json

text \<open>
  The observable actions on the world outside the process, in the order the model performs
  them. Tasks started by one \<open>asyncio.gather\<close> are listed in task order; their real
  interleaving is not fixed by the code.
\<close>

datatype effect =
    CacheRead
  | CacheWrite
  | RelevanceCall string string
  | HttpGet string
  | AnalysisCall string
  | ReportWrite string string

record world =
  cache :: cache_file
  trace :: "effect list"

datatype write_outcome = WriteOk | WriteIOError cache_file

datatype relevance_outcome = RelevanceRaises exn | RelevanceResponse bool string

datatype http_outcome = HttpRaisesRequestError | HttpBadStatus | HttpBody string

record AnalysisResult =
  qa_pairs :: "(string \<times> string) list"
  result_keywords :: "string list"
  result_summary :: string

datatype analysis_outcome = AnalysisRaises exn | AnalysisReturns AnalysisResult

text \<open>
  What the collaborators outside the repository answer. The first argument of a
  per-task oracle is the index of the task inside its \<open>asyncio.gather\<close>, so that two
  calls with equal arguments may be answered differently.
  \<^item> \<open>llm_client_init\<close>: the exception raised by \<open>LLMClient(...)\<close> and the construction of
    the filter or agent around it, if any;
  \<^item> \<open>relevance_llm\<close>: the structured relevance chain on a title and an abstract;
  \<^item> \<open>http_get\<close>: \<open>client.get\<close> with \<open>raise_for_status\<close> and \<open>aread\<close> on a document link;
  \<^item> \<open>pdf_text\<close>: PyMuPDF on the downloaded bytes, the text of all pages joined;
  \<^item> \<open>analysis_llm\<close>: the structured analysis chain on the paper text and the questions;
  \<^item> \<open>set_order\<close>: the order in which Python iterates over a set (\<open>list(updated_ids)\<close>).
    It depends on how the set was built, not on its elements alone, so the oracle is
    asked with the world at the moment of the call (the cache file the existing ids were
    read from, and everything done before) and may list one set in two orders;
  \<^item> \<open>cache_write\<close>: whether writing the cache file succeeds, and what is left on disk
    when it does not;
  \<^item> \<open>today\<close>: \<open>datetime.now().strftime('%Y-%m-%d')\<close>.
\<close>

record env =
  llm_client_init :: "exn option"
  relevance_llm :: "nat \<Rightarrow> string \<Rightarrow> string \<Rightarrow> relevance_outcome"
  http_get :: "nat \<Rightarrow> string \<Rightarrow> http_outcome"
  pdf_text :: "string \<Rightarrow> exn + string"
  analysis_llm :: "nat \<Rightarrow> string \<Rightarrow> string \<Rightarrow> analysis_outcome"
  set_order :: "world \<Rightarrow> json set \<Rightarrow> json list"
  cache_write :: write_outcome
  today :: string

section \<open>Dedup cache (src/cache.py)\<close>

text \<open>\<open>data.get("processed_ids", [])\<close>: only a \<open>dict\<close> has the method \<open>get\<close>.\<close>

fun dict_get :: "json \<Rightarrow> string \<Rightarrow> json \<Rightarrow> exn + json" where
  "dict_get (JObj kvs) k d = Inr (case map_of (rev kvs) k of None \<Rightarrow> d | Some v \<Rightarrow> v)"
| "dict_get _ k d = Inl AttributeError"

fun hashable :: "json \<Rightarrow> bool" where
  "hashable (JArr xs) = False"
| "hashable (JObj kvs) = False"
| "hashable _ = True"

text \<open>
  Equality of set elements: Python takes \<open>True\<close> for \<open>1\<close> and \<open>False\<close> for \<open>0\<close>. \<open>py_key\<close>
  maps equal elements to one value.
\<close>

fun py_key :: "json \<Rightarrow> json" where
  "py_key (JBool b) = JNum (if b then 1 else 0)"
| "py_key x = x"

text \<open>
  Building a set from a list keeps, of elements that are equal, the one that comes
  first. \<open>seen\<close> holds the keys of the elements kept so far.
\<close>

fun first_of_equal :: "json list \<Rightarrow> json list \<Rightarrow> json list" where
  "first_of_equal seen [] = []"
| "first_of_equal seen (x # xs) =
     (if py_key x \<in> set seen then first_of_equal seen xs
      else x # first_of_equal (py_key x # seen) xs)"

text \<open>
  \<open>set(v)\<close>: the elements of a list (all of them must be hashable), the characters of a
  string, the keys of a dict; anything else is not iterable.
\<close>

fun py_set :: "json \<Rightarrow> exn + json set" where
  "py_set (JArr xs) =
     (if list_all hashable xs then Inr (set (first_of_equal [] xs)) else Inl TypeError)"
| "py_set (JStr s) = Inr ((\<lambda>c. JStr [c]) ` set s)"
| "py_set (JObj kvs) = Inr (JStr ` fst ` set kvs)"
| "py_set _ = Inl TypeError"

definition decode_ids :: "json \<Rightarrow> exn + json set" where
  "decode_ids data =
     (case dict_get data ''processed_ids'' (JArr []) of
        Inl e \<Rightarrow> Inl e
      | Inr v \<Rightarrow> py_set v)"

text \<open>
  \<open>load_processed_ids\<close>. The handler catches \<open>json.JSONDecodeError\<close> and \<open>IOError\<close> only;
  every other exception leaves the function.
\<close>

fun read_cache :: "cache_file \<Rightarrow> exn + json set" where
  "read_cache Absent = Inr {}"
| "read_cache Unopenable = Inr {}"
| "read_cache Malformed = Inr {}"
| "read_cache Undecodable = Inl UnicodeDecodeError"
| "read_cache Overlong = Inl ValueError"
| "read_cache (Holds data) = decode_ids data"

definition load_processed_ids :: "world \<Rightarrow> (exn + json set) \<times> world" where
  "load_processed_ids w = (read_cache (cache w), w\<lparr>trace := trace w @ [CacheRead]\<rparr>)"

text \<open>
  \<open>save_processed_ids\<close>. The call of \<open>load_processed_ids\<close> is outside the \<open>try\<close>, so what it
  raises leaves \<open>save_processed_ids\<close> as well. An \<open>IOError\<close> while writing is caught.
  The new ids are strings, which are equal to no other element, so the union is the
  union of the two sets.
\<close>

definition save_processed_ids :: "env \<Rightarrow> string set \<Rightarrow> world \<Rightarrow> (exn + unit) \<times> world" where
  "save_processed_ids ev new_ids w =
     (case load_processed_ids w of
        (Inl e, w1) \<Rightarrow> (Inl e, w1)
      | (Inr existing_ids, w1) \<Rightarrow>
          (let updated_ids = existing_ids \<union> JStr ` new_ids
           in case cache_write ev of
                WriteOk \<Rightarrow>
                  (Inr (), w1\<lparr>cache := Holds (JObj [(''processed_ids'', JArr (set_order ev w1 updated_ids))]),
                              trace := trace w1 @ [CacheWrite]\<rparr>)
              | WriteIOError left \<Rightarrow>
                  (Inr (), w1\<lparr>cache := left, trace := trace w1 @ [CacheWrite]\<rparr>)))"

section \<open>Relevance filter (src/filter.py)\<close>

text \<open>
  \<open>is_relevant\<close>: the structured answer's boolean; any exception of the call is caught and
  answered \<open>False\<close>.
\<close>

definition is_relevant :: "env \<Rightarrow> nat \<Rightarrow> PaperCandidate \<Rightarrow> bool" where
  "is_relevant ev i paper =
     (case relevance_llm ev i (title paper) (abstract paper) of
        RelevanceRaises e \<Rightarrow> False
      | RelevanceResponse decision reason \<Rightarrow> decision)"

text \<open>
  \<open>filter_papers\<close>: one task per paper, \<open>asyncio.gather\<close> returns the answers in task
  order, and the comprehension keeps the papers zipped with a true answer.
\<close>

definition filter_papers :: "env \<Rightarrow> PaperCandidate list \<Rightarrow> world \<Rightarrow> PaperCandidate list \<times> world" where
  "filter_papers ev papers w =
     (let results = map (\<lambda>(i, paper). is_relevant ev i paper) (enumerate 0 papers);
          relevant_papers = [paper. (paper, relevant) \<leftarrow> zip papers results, relevant]
      in (relevant_papers,
          w\<lparr>trace := trace w @ map (\<lambda>paper. RelevanceCall (title paper) (abstract paper)) papers\<rparr>))"

section \<open>Paper analysis (src/analysis.py)\<close>

definition ANALYTICAL_QUESTIONS :: "string list" where
  "ANALYTICAL_QUESTIONS =
     [''1. What is the main research question or problem the paper addresses?'',
      ''2. What is the key innovation or contribution of this paper?'',
      ''3. What is the methodology or approach used in this paper?'',
      ''4. What were the main results of the experiments or analysis?'',
      ''5. What are the main limitations of the work described in the paper?'',
      ''6. How does this work compare to previous research in the field?'',
      ''7. What are the potential future directions for this research?'',
      ''8. What are the practical applications or implications of this work?'',
      ''9. What datasets were used in this study, and are they publicly available?'',
      ''10. Is the code or software used in this study available, and if so, where?'']"

text \<open>\<open>sep.join(parts)\<close>.\<close>

fun join :: "string \<Rightarrow> string list \<Rightarrow> string" where
  "join sep [] = []"
| "join sep [x] = x"
| "join sep (x # y # ys) = x @ sep @ join sep (y # ys)"

subsection \<open>Whitespace\<close>

text \<open>
  The characters \<open>\s\<close> and \<open>str.strip\<close> take for whitespace, among the code points below
  256: tab to carriage return, the four separators 28 to 31, the space, NEL and the
  no-break space.
\<close>

definition is_space :: "char \<Rightarrow> bool" where
  "is_space c = ((of_char c :: nat) \<in> {9, 10, 11, 12, 13, 28, 29, 30, 31, 32, 133, 160})"

text \<open>\<open>re.sub(r'\s+', ' ', text)\<close>: every maximal run of whitespace becomes one space.\<close>

function sub_spaces :: "string \<Rightarrow> string" where
  "sub_spaces [] = []"
| "sub_spaces (c # cs) =
     (if is_space c then CHR '' '' # sub_spaces (dropWhile is_space cs)
      else c # sub_spaces cs)"
  by pat_completeness auto
termination
  by (relation "measure length") (auto simp: le_imp_less_Suc length_dropWhile_le)

definition strip :: "string \<Rightarrow> string" where
  "strip s = rev (dropWhile is_space (rev (dropWhile is_space s)))"

text \<open>
  \<open>_download_and_parse_pdf\<close>: a \<open>RequestError\<close> of the download, and any other exception of
  the download or of the extraction (a bad status among them), end in the same
  \<open>return ""\<close>.
\<close>

definition download_and_parse_pdf :: "env \<Rightarrow> nat \<Rightarrow> string \<Rightarrow> string" where
  "download_and_parse_pdf ev i link =
     (case http_get ev i link of
        HttpRaisesRequestError \<Rightarrow> []
      | HttpBadStatus \<Rightarrow> []
      | HttpBody pdf_content \<Rightarrow>
          (case pdf_text ev pdf_content of
             Inl e \<Rightarrow> []
           | Inr text \<Rightarrow> strip (sub_spaces text)))"

subsection \<open>The two link patterns\<close>

text \<open>
  The patterns use a literal, an optional literal and \<open>[\w\-]+\<close> only, so a pattern is a
  list of such atoms. \<open>match_here\<close> is the backtracking matcher of \<open>re\<close> at one position: an
  optional literal is tried present first, a \<open>+\<close> longest first. It returns the text left
  after the match.
\<close>

definition is_word :: "char \<Rightarrow> bool" where
  "is_word c =
     (let n = (of_char c :: nat)
      in (48 \<le> n \<and> n \<le> 57) \<or> (65 \<le> n \<and> n \<le> 90) \<or> (97 \<le> n \<and> n \<le> 122) \<or> n = 95
         \<or> n \<in> {170, 178, 179, 181, 185, 186, 188, 189, 190}
         \<or> (192 \<le> n \<and> n \<le> 214) \<or> (216 \<le> n \<and> n \<le> 246) \<or> (248 \<le> n \<and> n \<le> 255))"

definition is_word_or_dash :: "char \<Rightarrow> bool" where
  "is_word_or_dash c = (is_word c \<or> c = CHR ''-'')"

datatype atom = Lit string | OptLit string | PlusWordDash

fun starts_with :: "string \<Rightarrow> string \<Rightarrow> bool" where
  "starts_with [] s = True"
| "starts_with (x # xs) [] = False"
| "starts_with (x # xs) (c # cs) = (x = c \<and> starts_with xs cs)"

fun longest_first :: "(string \<Rightarrow> string option) \<Rightarrow> nat \<Rightarrow> string \<Rightarrow> string option" where
  "longest_first k 0 s = None"
| "longest_first k (Suc n) s =
     (case k (drop (Suc n) s) of
        Some rest \<Rightarrow> Some rest
      | None \<Rightarrow> longest_first k n s)"

primrec match_here :: "atom list \<Rightarrow> string \<Rightarrow> string option" where
  "match_here [] = (\<lambda>s. Some s)"
| "match_here (a # as) =
     (\<lambda>s. case a of
        Lit l \<Rightarrow> if starts_with l s then match_here as (drop (length l) s) else None
      | OptLit l \<Rightarrow>
          (case (if starts_with l s then match_here as (drop (length l) s) else None) of
             Some rest \<Rightarrow> Some rest
           | None \<Rightarrow> match_here as s)
      | PlusWordDash \<Rightarrow> longest_first (match_here as) (length (takeWhile is_word_or_dash s)) s)"

text \<open>
  \<open>re.findall\<close> for a pattern without groups: the matches from left to right, each search
  starting where the last match ended. The branch for an empty match is there for
  totality; neither pattern can match the empty text.
\<close>

function findall :: "atom list \<Rightarrow> string \<Rightarrow> string list" where
  "findall p [] = (case match_here p [] of Some rest \<Rightarrow> [] # [] | None \<Rightarrow> [])"
| "findall p (c # cs) =
     (case match_here p (c # cs) of
        None \<Rightarrow> findall p cs
      | Some rest \<Rightarrow>
          if length rest < Suc (length cs)
          then take (Suc (length cs) - length rest) (c # cs) # findall p rest
          else [] # findall p cs)"
  by pat_completeness auto
termination
  by (relation "measure (\<lambda>(p, s). length s)") auto

definition github_pattern :: "atom list" where
  "github_pattern =
     [Lit ''http'', OptLit ''s'', Lit ''://'', OptLit ''www.'', Lit ''github.com/'',
      PlusWordDash, Lit ''/'', PlusWordDash]"

definition huggingface_pattern :: "atom list" where
  "huggingface_pattern =
     [Lit ''http'', OptLit ''s'', Lit ''://'', OptLit ''www.'', Lit ''huggingface.co/'',
      PlusWordDash]"

text \<open>
  \<open>_extract_resource_links\<close>: the dict starts with three empty entries; the first GitHub
  match and the first Hugging Face match overwrite theirs. No statement assigns
  \<open>project_page\<close>.
\<close>

definition extract_resource_links :: "string \<Rightarrow> (string \<times> string) list" where
  "extract_resource_links text =
     (let links = [(''github'', []), (''huggingface'', []), (''project_page'', [])];
          github_matches = findall github_pattern text;
          huggingface_matches = findall huggingface_pattern text;
          links1 = (case github_matches of [] \<Rightarrow> links | m # ms \<Rightarrow> AList.update ''github'' m links);
          links2 = (case huggingface_matches of [] \<Rightarrow> links1 | m # ms \<Rightarrow> AList.update ''huggingface'' m links1)
      in links2)"

subsection \<open>One paper\<close>

text \<open>\<open>{item.question: item.answer for item in ...}\<close>: a repeated question keeps its first
  place and takes the last answer.\<close>

definition dict_of_pairs :: "(string \<times> string) list \<Rightarrow> (string \<times> string) list" where
  "dict_of_pairs pairs = fold (\<lambda>(q, a) d. AList.update q a d) pairs []"

definition max_text_length :: nat where
  "max_text_length = 30000"

text \<open>
  \<open>analyze_paper\<close>, with the actions it performs. An empty text returns \<open>None\<close> before the
  link scan and before the model is called; an exception of the model call is caught and
  returns \<open>None\<close>.
\<close>

definition analyze_paper :: "env \<Rightarrow> nat \<Rightarrow> PaperCandidate \<Rightarrow> AnalyzedPaper option \<times> effect list" where
  "analyze_paper ev i paper =
     (let paper_text = download_and_parse_pdf ev i (pdf_url paper)
      in if paper_text = [] then (None, [HttpGet (pdf_url paper)])
         else
           (let links = extract_resource_links paper_text;
                paper_text1 = (if length paper_text > max_text_length
                               then take max_text_length paper_text else paper_text);
                done = [HttpGet (pdf_url paper), AnalysisCall paper_text1]
            in case analysis_llm ev i paper_text1 (join [CHR 0x0A] ANALYTICAL_QUESTIONS) of
                 AnalysisRaises e \<Rightarrow> (None, done)
               | AnalysisReturns analysis_result \<Rightarrow>
                   (Some \<lparr>metadata = paper,
                          keywords_list = result_keywords analysis_result,
                          analysis_qa = dict_of_pairs (qa_pairs analysis_result),
                          resource_links = links,
                          summary = result_summary analysis_result\<rparr>, done)))"

section \<open>Pipeline nodes (src/graph.py)\<close>

text \<open>
  The state dict. \<open>error\<close> is \<open>None\<close> or a string; \<open>report_filename\<close> is the key the last
  node adds, absent before.
\<close>

record GraphState =
  paper_candidates :: "PaperCandidate list"
  relevant_papers :: "PaperCandidate list"
  analyzed_papers :: "AnalyzedPaper list"
  markdown_report :: string
  error :: "string option"
  report_filename :: "string option"

text \<open>\<open>state.get("error")\<close> as a condition: \<open>None\<close> and the empty string count as false.\<close>

fun truthy :: "string option \<Rightarrow> bool" where
  "truthy None = False"
| "truthy (Some e) = (e \<noteq> [])"

text \<open>
  \<open>filter_papers_node\<close>. Everything after the test of the error marker is inside the
  \<open>try\<close>; an exception sets the marker and keeps what was done to the world before it.
\<close>

definition filter_papers_node :: "env \<Rightarrow> GraphState \<times> world \<Rightarrow> GraphState \<times> world" where
  "filter_papers_node ev sw =
     (case sw of (state, w) \<Rightarrow>
        if truthy (error state) then (state, w)
        else
          (case llm_client_init ev of
             Some e \<Rightarrow> (state\<lparr>error := Some ''Failed to filter papers for relevance.''\<rparr>, w)
           | None \<Rightarrow>
               (case filter_papers ev (paper_candidates state) w of
                  (relevant, w1) \<Rightarrow>
                    (case load_processed_ids w1 of
                       (Inl e, w2) \<Rightarrow>
                         (state\<lparr>error := Some ''Failed to filter papers for relevance.''\<rparr>, w2)
                     | (Inr processed_ids, w2) \<Rightarrow>
                         (if processed_ids \<noteq> {}
                          then (state\<lparr>relevant_papers :=
                                  filter (\<lambda>paper. JStr (paper_id paper) \<notin> processed_ids) relevant\<rparr>, w2)
                          else (state\<lparr>relevant_papers := relevant\<rparr>, w2))))))"

text \<open>
  What \<open>asyncio.gather(..., return_exceptions=True)\<close> can hold for one task: the value
  \<open>None\<close>, an \<open>AnalyzedPaper\<close>, or an exception object.
\<close>

datatype gathered = GotNone | GotPaper AnalyzedPaper | GotException exn

fun isinstance_AnalyzedPaper :: "gathered \<Rightarrow> bool" where
  "isinstance_AnalyzedPaper (GotPaper a) = True"
| "isinstance_AnalyzedPaper _ = False"

fun gathered_of :: "AnalyzedPaper option \<Rightarrow> gathered" where
  "gathered_of None = GotNone"
| "gathered_of (Some a) = GotPaper a"

text \<open>Lines 94 and 95: one \<open>analyze_paper\<close> task per paper, gathered in task order.\<close>

definition gather_analysis :: "env \<Rightarrow> PaperCandidate list \<Rightarrow> gathered list \<times> effect list" where
  "gather_analysis ev papers =
     (let runs = map (\<lambda>(i, paper). analyze_paper ev i paper) (enumerate 0 papers)
      in (map (gathered_of \<circ> fst) runs, concat (map snd runs)))"

text \<open>Line 97: \<open>[res for res in results if isinstance(res, AnalyzedPaper)]\<close>.\<close>

definition keep_analyzed :: "gathered list \<Rightarrow> gathered list" where
  "keep_analyzed results = filter isinstance_AnalyzedPaper results"

fun papers_of :: "gathered list \<Rightarrow> AnalyzedPaper list" where
  "papers_of [] = []"
| "papers_of (GotPaper a # rs) = a # papers_of rs"
| "papers_of (r # rs) = papers_of rs"

text \<open>The batch operation of the analyze node: lines 94 to 97.\<close>

definition analyze_all :: "env \<Rightarrow> PaperCandidate list \<Rightarrow> AnalyzedPaper list \<times> effect list" where
  "analyze_all ev papers =
     (case gather_analysis ev papers of
        (results, done) \<Rightarrow> (papers_of (keep_analyzed results), done))"

definition analyze_papers_node :: "env \<Rightarrow> GraphState \<times> world \<Rightarrow> GraphState \<times> world" where
  "analyze_papers_node ev sw =
     (case sw of (state, w) \<Rightarrow>
        if truthy (error state) \<or> relevant_papers state = [] then (state, w)
        else
          (case llm_client_init ev of
             Some e \<Rightarrow> (state\<lparr>error := Some ''Failed during paper analysis.''\<rparr>, w)
           | None \<Rightarrow>
               (case analyze_all ev (relevant_papers state) of
                  (analyzed, done) \<Rightarrow>
                    (let w1 = w\<lparr>trace := trace w @ done\<rparr>;
                         successfully_analyzed_ids = set (map (\<lambda>paper. paper_id (metadata paper)) analyzed)
                     in if successfully_analyzed_ids \<noteq> {}
                        then (case save_processed_ids ev successfully_analyzed_ids w1 of
                                (Inl e, w2) \<Rightarrow> (state\<lparr>error := Some ''Failed during paper analysis.''\<rparr>, w2)
                              | (Inr u, w2) \<Rightarrow> (state\<lparr>analyzed_papers := analyzed\<rparr>, w2))
                        else (state\<lparr>analyzed_papers := analyzed\<rparr>, w1)))))"

text \<open>
  The synthesizer object the last node receives as its second argument. Its class is
  not among the sources; the node uses two methods of it, each of which may raise.
\<close>

record MarkdownSynthesizer =
  synthesize_method :: "AnalyzedPaper list \<Rightarrow> exn + string"
  save_report_async :: "string \<Rightarrow> string \<Rightarrow> world \<Rightarrow> (exn + unit) \<times> world"

definition synthesize_report_node ::
  "env \<Rightarrow> MarkdownSynthesizer \<Rightarrow> GraphState \<times> world \<Rightarrow> GraphState \<times> world" where
  "synthesize_report_node ev synthesizer sw =
     (case sw of (state, w) \<Rightarrow>
        if truthy (error state) then (state, w)
        else
          (case synthesize_method synthesizer (analyzed_papers state) of
             Inl e \<Rightarrow> (state\<lparr>error := Some ''Failed to synthesize and save the report.''\<rparr>, w)
           | Inr report_content \<Rightarrow>
               (let filename = ''AI4Science_Report_'' @ today ev @ ''.md''
                in case save_report_async synthesizer report_content filename w of
                     (Inl e, w1) \<Rightarrow>
                       (state\<lparr>error := Some ''Failed to synthesize and save the report.''\<rparr>, w1)
                   | (Inr u, w1) \<Rightarrow>
                       (state\<lparr>markdown_report := report_content,
                              report_filename := Some filename\<rparr>, w1))))"

section \<open>Source fetchers (src/fetcher.py)\<close>

text \<open>
  An instant is a number of microseconds since the epoch, in UTC. A date string
  \<open>%Y-%m-%d\<close> is represented by the number of its UTC day.
\<close>

definition one_day :: int where
  "one_day = 86400000000"

definition utc_day :: "int \<Rightarrow> int" where
  "utc_day t = t div one_day"

text \<open>\<open>s.split(sep)\<close> for a separator of one character; the result is never empty.\<close>

fun split_on :: "char \<Rightarrow> string \<Rightarrow> string list" where
  "split_on sep [] = [] # []"
| "split_on sep (c # cs) =
     (if c = sep then [] # split_on sep cs
      else (case split_on sep cs of
              [] \<Rightarrow> [c] # []
            | part # parts \<Rightarrow> (c # part) # parts))"

subsection \<open>arXiv\<close>

text \<open>
  One \<open>arxiv.Result\<close>, with the attributes the code reads. \<open>published\<close> is the instant of
  the aware datetime; a link has an optional title and an address.
\<close>

record ArxivResult =
  entry_id :: string
  arxiv_title :: string
  arxiv_summary :: string
  arxiv_authors :: "string list"
  published :: int
  arxiv_pdf_url :: "string option"
  links :: "(string option \<times> string) list"

text \<open>
  \<open>result.pdf_url or next((link.href for link in result.links if link.title == 'pdf'), None)\<close>
\<close>

definition resolve_pdf_url :: "ArxivResult \<Rightarrow> string option" where
  "resolve_pdf_url result =
     (if truthy (arxiv_pdf_url result) then arxiv_pdf_url result
      else (case filter (\<lambda>link. fst link = Some ''pdf'') (links result) of
              [] \<Rightarrow> None
            | link # rest \<Rightarrow> Some (snd link)))"

definition arxiv_candidate :: "ArxivResult \<Rightarrow> string \<Rightarrow> PaperCandidate" where
  "arxiv_candidate result link =
     \<lparr>paper_id = last (split_on CHR ''/'' (entry_id result)),
      url = entry_id result,
      pdf_url = link,
      title = arxiv_title result,
      abstract = arxiv_summary result,
      authors = arxiv_authors result,
      source = ''arXiv''\<rparr>"

text \<open>
  The loop of \<open>search_arxiv\<close> over the results of the query, \<open>now\<close> being the clock read
  at its start: a result is looked at only if it was published after \<open>now\<close> minus one
  day, and skipped if no document link is found.
\<close>

fun search_arxiv :: "int \<Rightarrow> ArxivResult list \<Rightarrow> PaperCandidate list" where
  "search_arxiv now [] = []"
| "search_arxiv now (result # results) =
     (let yesterday = now - one_day
      in if published result > yesterday
         then (case resolve_pdf_url result of
                 None \<Rightarrow> search_arxiv now results
               | Some link \<Rightarrow>
                   if link = [] then search_arxiv now results
                   else arxiv_candidate result link # search_arxiv now results)
         else search_arxiv now results)"

text \<open>\<open>_fetch_from_arxiv\<close>: any exception of the query or of the loop gives the empty list.\<close>

definition fetch_from_arxiv :: "(exn + ArxivResult list) \<Rightarrow> int \<Rightarrow> PaperCandidate list" where
  "fetch_from_arxiv query now =
     (case query of
        Inl e \<Rightarrow> []
      | Inr results \<Rightarrow> search_arxiv now results)"

subsection \<open>bioRxiv and medRxiv\<close>

datatype rxiv_server = biorxiv | medrxiv

fun server_capitalize :: "rxiv_server \<Rightarrow> string" where
  "server_capitalize biorxiv = ''Biorxiv''"
| "server_capitalize medrxiv = ''Medrxiv''"

text \<open>
  One record of the \<open>collection\<close> of a response, with the members the code reads, typed
  as the API documents them; a missing member is \<open>None\<close>. The authors are one string or a
  list whose entries are a dict with the key \<open>author\<close>, a string, or something else.
  \<open>rxiv_published\<close> is the instant the paper of the record was published; the code reads
  no member that tells it.
\<close>

datatype author_entry = AuthorDict string | AuthorName string | AuthorOther

datatype rxiv_authors = AuthorsText string | AuthorsList "author_entry list"

record RxivPaper =
  doi :: "string option"
  version :: "string option"
  rxiv_title :: "string option"
  rxiv_abstract :: "string option"
  rxiv_author_data :: rxiv_authors
  rxiv_published :: int

text \<open>
  The request: a \<open>RequestError\<close>, which the function catches; another exception (a bad
  status, a body that is not JSON or not of the documented shape), which it does not;
  or the collection of the decoded body.
\<close>

datatype rxiv_outcome = RxivRequestError | RxivRaises exn | RxivCollection "RxivPaper list"

fun str_or_None :: "string option \<Rightarrow> string" where
  "str_or_None None = ''None''"
| "str_or_None (Some s) = s"

fun get_or_empty :: "string option \<Rightarrow> string" where
  "get_or_empty None = []"
| "get_or_empty (Some s) = s"

fun collect_authors :: "author_entry list \<Rightarrow> string list" where
  "collect_authors [] = []"
| "collect_authors (AuthorDict name # rest) = name # collect_authors rest"
| "collect_authors (AuthorName name # rest) = name # collect_authors rest"
| "collect_authors (AuthorOther # rest) = collect_authors rest"

text \<open>Iterating over a string appends its characters one by one, and the join restores it.\<close>

fun rxiv_author_names :: "rxiv_authors \<Rightarrow> string list" where
  "rxiv_author_names (AuthorsText s) = split_on CHR '';'' s"
| "rxiv_author_names (AuthorsList entries) = split_on CHR '';'' (concat (collect_authors entries))"

definition rxiv_candidate :: "rxiv_server \<Rightarrow> RxivPaper \<Rightarrow> string \<Rightarrow> PaperCandidate" where
  "rxiv_candidate server paper d =
     (let paper_url = ''https://www.biorxiv.org/content/'' @ d
      in \<lparr>paper_id = d,
          url = paper_url,
          pdf_url = paper_url @ ''v'' @ str_or_None (version paper) @ ''.full.pdf'',
          title = get_or_empty (rxiv_title paper),
          abstract = get_or_empty (rxiv_abstract paper),
          authors = rxiv_author_names (rxiv_author_data paper),
          source = server_capitalize server\<rparr>)"

text \<open>The loop over the collection: a record without a DOI, or with an empty one, is skipped.\<close>

fun rxiv_candidates :: "rxiv_server \<Rightarrow> RxivPaper list \<Rightarrow> PaperCandidate list" where
  "rxiv_candidates server [] = []"
| "rxiv_candidates server (paper # papers) =
     (case doi paper of
        None \<Rightarrow> rxiv_candidates server papers
      | Some d \<Rightarrow>
          if d = [] then rxiv_candidates server papers
          else rxiv_candidate server paper d # rxiv_candidates server papers)"

text \<open>
  \<open>_fetch_from_rxiv\<close>. The API is asked for the records dated from \<open>from_date\<close> to the
  day of \<open>now\<close>; what it answers is turned into candidates.
\<close>

definition fetch_from_rxiv ::
  "(rxiv_server \<Rightarrow> int \<Rightarrow> int \<Rightarrow> rxiv_outcome) \<Rightarrow> rxiv_server \<Rightarrow> int \<Rightarrow> int \<Rightarrow> exn + PaperCandidate list" where
  "fetch_from_rxiv api server from_date now =
     (let to_date = utc_day now
      in case api server from_date to_date of
           RxivRequestError \<Rightarrow> Inr []
         | RxivRaises e \<Rightarrow> Inl e
         | RxivCollection collection \<Rightarrow> Inr (rxiv_candidates server collection))"

subsection \<open>chemRxiv\<close>

text \<open>
  One entry of \<open>itemHits\<close>, after the step into its member \<open>item\<close>, with the members the
  code reads; a missing member is \<open>None\<close>. An author is a pair of optional first and last
  name. \<open>chem_published\<close> is the instant the paper was published; the code does not read
  the member \<open>publishedDate\<close>.
\<close>

record ChemItem =
  chem_id :: "string option"
  chem_title :: "string option"
  chem_abstract :: "string option"
  chem_asset_url :: "string option"
  chem_authors :: "(string option \<times> string option) list"
  chem_published :: int

text \<open>
  \<open>_scrape_and_create_chemrxiv_candidate\<close>: no document link returns \<open>None\<close>; a missing
  \<open>id\<close> or \<open>title\<close> is a \<open>KeyError\<close>, a missing abstract fails the validation of the
  model, and both are caught and return \<open>None\<close>.
\<close>

definition scrape_and_create_chemrxiv_candidate :: "ChemItem \<Rightarrow> PaperCandidate option" where
  "scrape_and_create_chemrxiv_candidate item =
     (if \<not> truthy (chem_asset_url item) then None
      else (case chem_id item of
              None \<Rightarrow> None
            | Some item_id \<Rightarrow>
                (case chem_title item of
                   None \<Rightarrow> None
                 | Some item_title \<Rightarrow>
                     (case chem_abstract item of
                        None \<Rightarrow> None
                      | Some item_abstract \<Rightarrow>
                          Some \<lparr>paper_id = item_id,
                                url = ''https://chemrxiv.org/engage/chemrxiv/article-details/'' @ item_id,
                                pdf_url = get_or_empty (chem_asset_url item),
                                title = item_title,
                                abstract = item_abstract,
                                authors = map (\<lambda>(first, last). strip (get_or_empty first @ '' '' @ get_or_empty last))
                                            (chem_authors item),
                                source = ''chemRxiv''\<rparr>))))"

datatype page_outcome = PageRaises exn | PageHits "ChemItem list"

definition page_size :: nat where
  "page_size = 50"

text \<open>
  The \<open>while True\<close> loop over the pages. The API is asked with a number of records to
  skip and the start date; the loop ends at the first page without hits or at an
  exception, and does not end while every page has hits.
\<close>

partial_function (option) collect_pages ::
  "(nat \<Rightarrow> int \<Rightarrow> page_outcome) \<Rightarrow> int \<Rightarrow> nat \<Rightarrow> ChemItem list \<Rightarrow> (exn + ChemItem list) option" where
  "collect_pages api start_date page all_items =
     (case api (page * page_size) start_date of
        PageRaises e \<Rightarrow> Some (Inl e)
      | PageHits item_hits \<Rightarrow>
          if item_hits = [] then Some (Inr all_items)
          else collect_pages api start_date (page + 1) (all_items @ item_hits))"

declare collect_pages.simps [code]

text \<open>
  \<open>_fetch_from_chemrxiv\<close>: every exception gives the empty list; the items of all pages
  are converted, and the conversions that returned a candidate are kept. \<open>None\<close> is the
  run that never leaves the loop.
\<close>

definition fetch_from_chemrxiv ::
  "(nat \<Rightarrow> int \<Rightarrow> page_outcome) \<Rightarrow> int \<Rightarrow> PaperCandidate list option" where
  "fetch_from_chemrxiv api now =
     (let yesterday = now - one_day
      in case collect_pages api (utc_day yesterday) 0 [] of
           None \<Rightarrow> None
         | Some (Inl e) \<Rightarrow> Some []
         | Some (Inr all_items) \<Rightarrow>
             Some (List.map_filter scrape_and_create_chemrxiv_candidate all_items))"

subsection \<open>All sources\<close>

text \<open>
  \<open>fetch_papers\<close>: one task per configured source (two for \<open>bioRxiv\<close>), gathered with
  \<open>return_exceptions=True\<close>; the lists are concatenated in task order and an exception
  contributes nothing.
\<close>

record sources_api =
  arxiv_query :: "exn + ArxivResult list"
  rxiv_api :: "rxiv_server \<Rightarrow> int \<Rightarrow> int \<Rightarrow> rxiv_outcome"
  chemrxiv_api :: "nat \<Rightarrow> int \<Rightarrow> page_outcome"

fun list_or_nothing :: "exn + PaperCandidate list \<Rightarrow> PaperCandidate list" where
  "list_or_nothing (Inl e) = []"
| "list_or_nothing (Inr candidates) = candidates"

definition fetch_papers :: "sources_api \<Rightarrow> string list \<Rightarrow> int \<Rightarrow> PaperCandidate list option" where
  "fetch_papers api sources now =
     (let yesterday_str = utc_day (now - one_day);
          from_arxiv = (if ''arXiv'' \<in> set sources then fetch_from_arxiv (arxiv_query api) now else []);
          from_rxiv = (if ''bioRxiv'' \<in> set sources
                       then concat (map (\<lambda>server. list_or_nothing
                                           (fetch_from_rxiv (rxiv_api api) server yesterday_str now))
                                     [biorxiv, medrxiv])
                       else [])
      in if ''chemRxiv'' \<in> set sources
         then (case fetch_from_chemrxiv (chemrxiv_api api) now of
                 None \<Rightarrow> None
               | Some from_chemrxiv \<Rightarrow> Some (from_arxiv @ from_rxiv @ from_chemrxiv))
         else Some (from_arxiv @ from_rxiv))"

section \<open>Report synthesizer\<close>

text \<open>
  The class \<open>MarkdownSynthesizer\<close> (module \<open>src.synthesizer\<close>) is imported by the graph
  and exercised by \<open>tests/test_synthesizer.py\<close>, but its source is not among the files.
  Its method \<open>synthesize\<close> is therefore written from the specification, section 4.5, with
  the line formats the tests look for. A report is written as a list of lines.
\<close>

text \<open>The decimal numeral of a natural number.\<close>

definition digit_char :: "nat \<Rightarrow> char" where
  "digit_char d =
     (if d = 0 then CHR ''0'' else if d = 1 then CHR ''1'' else if d = 2 then CHR ''2''
      else if d = 3 then CHR ''3'' else if d = 4 then CHR ''4'' else if d = 5 then CHR ''5''
      else if d = 6 then CHR ''6'' else if d = 7 then CHR ''7'' else if d = 8 then CHR ''8''
      else CHR ''9'')"

function string_of_nat :: "nat \<Rightarrow> string" where
  "string_of_nat n =
     (if n < 10 then [digit_char n]
      else string_of_nat (n div 10) @ [digit_char (n mod 10)])"
  by pat_completeness auto
termination
  by (relation "measure id") auto

declare string_of_nat.simps [simp del]

definition newline :: string where
  "newline = [CHR 0x0A]"

text \<open>The text of a list of lines, each closed by a line feed.\<close>

definition unlines :: "string list \<Rightarrow> string" where
  "unlines ls = concat (map (\<lambda>l. l @ newline) ls)"

text \<open>
  Modelled from the spec: the fixed document \<open>MarkdownSynthesizer.synthesize\<close> (source
  missing) produces for the empty input, with the empty-state message in the wording
  \<open>test_synthesize_empty_list\<close> looks for.
\<close>

definition empty_report :: string where
  "empty_report =
     unlines [''# AI4Science Daily Paper Report'', [], ''No relevant papers found today.'']"

text \<open>
  Modelled from the spec: the title and date header of a report of
  \<open>MarkdownSynthesizer.synthesize\<close> (source missing).
\<close>

definition report_header :: "string \<Rightarrow> string list" where
  "report_header date = [''# AI4Science Daily Paper Report - '' @ date, []]"

text \<open>
  Modelled from the spec: the numbered sub-heading that opens the section of a paper in
  \<open>MarkdownSynthesizer.synthesize\<close> (source missing), in the format
  \<open>test_synthesize_single_paper\<close> looks for.
\<close>

definition section_heading :: "nat \<Rightarrow> AnalyzedPaper \<Rightarrow> string" where
  "section_heading n paper = ''## '' @ string_of_nat n @ ''. '' @ title (metadata paper)"

text \<open>
  Modelled from the spec: the resource links of \<open>MarkdownSynthesizer.synthesize\<close> (source
  missing) that are present and not empty, labelled, in the fixed order of the kinds.
\<close>

definition resource_entries :: "AnalyzedPaper \<Rightarrow> string list" where
  "resource_entries paper =
     concat (map (\<lambda>(key, label).
                    case map_of (resource_links paper) key of
                      None \<Rightarrow> []
                    | Some link \<Rightarrow> if link = [] then [] else [''['' @ label @ ''](''  @ link @ '')''])
               [(''github'', ''GitHub''), (''huggingface'', ''Hugging Face''),
                (''project_page'', ''Project Page'')])"

text \<open>
  Modelled from the spec: the resources line of \<open>MarkdownSynthesizer.synthesize\<close> (source
  missing), left out when no link is present.
\<close>

definition resources_lines :: "AnalyzedPaper \<Rightarrow> string list" where
  "resources_lines paper =
     (if resource_entries paper = [] then []
      else [''**Resources:** '' @ join '' | '' (resource_entries paper), []])"

text \<open>
  Modelled from the spec: the lines of \<open>MarkdownSynthesizer.synthesize\<close> (source missing)
  for the questions and answers of \<open>analysis_qa\<close>.
\<close>

definition qa_lines :: "AnalyzedPaper \<Rightarrow> string list" where
  "qa_lines paper =
     concat (map (\<lambda>(question, answer). [''**Q:** '' @ question, [], ''**A:** '' @ answer, []])
               (analysis_qa paper))"

text \<open>
  Modelled from the spec: the section of one paper in \<open>MarkdownSynthesizer.synthesize\<close>
  (source missing): heading, authors, source and PDF links, resources, keywords, summary
  and the collapsible block of questions and answers.
\<close>

definition section_lines :: "nat \<Rightarrow> AnalyzedPaper \<Rightarrow> string list" where
  "section_lines n paper =
     [section_heading n paper, [],
      ''**Authors:** *'' @ join '', '' (authors (metadata paper)) @ ''*'', [],
      ''**Source:** ['' @ source (metadata paper) @ ''](''  @ url (metadata paper)
        @ '') | **PDF:** [Link]('' @ pdf_url (metadata paper) @ '')'', []]
     @ resources_lines paper
     @ [''**Keywords:** `'' @ join '', '' (keywords_list paper) @ ''`'', [],
        ''### Summary'', summary paper, [],
        ''<details>'', ''<summary>Detailed analysis</summary>'', []]
     @ qa_lines paper
     @ [''</details>'', []]"

text \<open>
  Modelled from the spec: the lines of a report of \<open>MarkdownSynthesizer.synthesize\<close>
  (source missing): the header, then the section of each paper, numbered from one, in
  the order of the input.
\<close>

definition report_lines :: "string \<Rightarrow> AnalyzedPaper list \<Rightarrow> string list" where
  "report_lines date papers =
     report_header date @ concat (map (\<lambda>(n, paper). section_lines n paper) (enumerate 1 papers))"

text \<open>
  Modelled from the spec: \<open>MarkdownSynthesizer.synthesize\<close>, whose source file
  \<open>src/synthesizer.py\<close> is missing. The empty input gives the fixed document with the
  empty-state message; any other input gives a title and date header followed by one
  numbered section per paper, in input order. The date of the header is an argument.
\<close>

definition synthesize :: "string \<Rightarrow> AnalyzedPaper list \<Rightarrow> string" where
  "synthesize date papers =
     (if papers = [] then empty_report else unlines (report_lines date papers))"

subsection \<open>Reading a report\<close>


text \<open>
  A text without a line break, and a paper all of whose texts are such and whose summary
  does not begin like a heading.
\<close>

definition plain_line :: "string \<Rightarrow> bool" where
  "plain_line s = list_all (\<lambda>c. c \<noteq> CHR 0x0A) s"


section \<open>Concrete inputs\<close>

text \<open>
  Small inputs on which the definitions are evaluated: two candidates (the document of
  the second holds only whitespace), collaborators that answer them, and pipeline states.
\<close>

definition demo_paper :: PaperCandidate where
  "demo_paper =
     \<lparr>paper_id = ''test001'', url = ''http://example.com/test001'',
      pdf_url = ''http://example.com/test001.pdf'', title = ''A Test Paper'',
      abstract = ''This paper tests things.'', authors = [''Tester''], source = ''Test''\<rparr>"

definition demo_blank_paper :: PaperCandidate where
  "demo_blank_paper =
     \<lparr>paper_id = ''test002'', url = ''http://example.com/test002'',
      pdf_url = ''http://example.com/blank.pdf'', title = ''Another Paper'',
      abstract = ''Scanned pages only.'', authors = [''Tester''], source = ''Test''\<rparr>"

definition demo_result :: AnalysisResult where
  "demo_result = \<lparr>qa_pairs = [(''Q1'', ''A1'')], result_keywords = [''kw1''], result_summary = ''summary''\<rparr>"

definition demo_env :: env where
  "demo_env =
     \<lparr>llm_client_init = None,
      relevance_llm = (\<lambda>i t a. if i = 0 then RelevanceResponse True ''applies learning to chemistry''
                               else RelevanceRaises (OtherException ''API Error'')),
      http_get = (\<lambda>i link. if link = ''http://example.com/test001.pdf'' then HttpBody ''pdf-1''
                            else if link = ''http://example.com/blank.pdf'' then HttpBody ''pdf-2''
                            else HttpRaisesRequestError),
      pdf_text = (\<lambda>content. if content = ''pdf-1'' then Inr ''Code:  https://github.com/test/repo .''
                             else if content = ''pdf-2'' then Inr [CHR '' '', CHR 0x0A, CHR 0x09]
                             else Inl (OtherException ''not a PDF'')),
      analysis_llm = (\<lambda>i t q. AnalysisReturns demo_result),
      set_order = (\<lambda>v S. if S = {JStr ''a''} then [JStr ''a'']
                          else if S = {JStr ''a'', JStr ''b''}
                          then (if cache v = Absent then [JStr ''a'', JStr ''b'']
                                else [JStr ''b'', JStr ''a''])
                          else []),
      cache_write = WriteOk,
      today = ''2025-01-01''\<rparr>"

text \<open>The same collaborators with every download failing.\<close>

definition demo_offline_env :: env where
  "demo_offline_env = demo_env\<lparr>http_get := (\<lambda>i link. HttpRaisesRequestError)\<rparr>"

definition demo_world :: world where
  "demo_world = \<lparr>cache = Absent, trace = []\<rparr>"

definition demo_analyzed :: AnalyzedPaper where
  "demo_analyzed =
     \<lparr>metadata = demo_paper, keywords_list = [''kw1''], analysis_qa = [(''Q1'', ''A1'')],
      resource_links = [(''github'', ''https://github.com/test/repo''), (''huggingface'', []),
                        (''project_page'', [])],
      summary = ''summary''\<rparr>"



definition demo_failed_state :: GraphState where
  "demo_failed_state =
     \<lparr>paper_candidates = [demo_paper], relevant_papers = [demo_paper], analyzed_papers = [],
      markdown_report = [], error = Some ''Failed to fetch papers.'', report_filename = None\<rparr>"

definition demo_idle_state :: GraphState where
  "demo_idle_state =
     \<lparr>paper_candidates = [demo_paper], relevant_papers = [], analyzed_papers = [],
      markdown_report = [], error = None, report_filename = None\<rparr>"

definition demo_synthesizer :: MarkdownSynthesizer where
  "demo_synthesizer =
     \<lparr>synthesize_method = (\<lambda>papers. Inr (synthesize ''2025-01-01'' papers)),
      save_report_async = (\<lambda>content filename w.
                             (Inr (), w\<lparr>trace := trace w @ [ReportWrite filename content]\<rparr>))\<rparr>"







section \<open>Properties\<close>

subsection \<open>Short circuit on the error marker\<close>

text \<open>
  Claim C1. If the error marker of the state counts as set (it is a non-empty string),
  each of \<open>filter_papers_node\<close>, \<open>analyze_papers_node\<close> and \<open>synthesize_report_node\<close>
  returns the state it was given, and the world is as before: no cache read or write, no
  model call, no download and no report file appear in the trace.
\<close>

theorem error_short_circuit:
  assumes "truthy (error state)"
  shows "filter_papers_node ev (state, w) = (state, w)
       \<and> analyze_papers_node ev (state, w) = (state, w)
       \<and> synthesize_report_node ev synthesizer (state, w) = (state, w)"
  using assms
  by (simp add: filter_papers_node_def analyze_papers_node_def synthesize_report_node_def)

text \<open>
  The theorem at a state that carries the error of a failed fetch.
\<close>

theorem error_short_circuit_witness:
  "truthy (error demo_failed_state)
   \<and> filter_papers_node demo_env (demo_failed_state, demo_world) = (demo_failed_state, demo_world)
   \<and> analyze_papers_node demo_env (demo_failed_state, demo_world) = (demo_failed_state, demo_world)
   \<and> synthesize_report_node demo_env demo_synthesizer (demo_failed_state, demo_world)
       = (demo_failed_state, demo_world)"
proof -
  have marked: "truthy (error demo_failed_state)"
    by (simp add: demo_failed_state_def)
  from error_short_circuit[OF marked, of demo_env demo_world demo_synthesizer] marked
  show ?thesis by simp
qed

subsection \<open>The analyze node on an empty work list\<close>

text \<open>
  Claim C9. If no error marker is set and \<open>relevant_papers\<close> is empty, the analyze node
  returns the state it was given and leaves the world as it was: no analysis is started
  and the cache is neither read nor written.
\<close>

theorem analyze_node_skips_empty:
  assumes "\<not> truthy (error state)" and "relevant_papers state = []"
  shows "analyze_papers_node ev (state, w) = (state, w)"
  using assms by (simp add: analyze_papers_node_def)

text \<open>
  The theorem at a state without error and without relevant papers.
\<close>

theorem analyze_node_skips_empty_witness:
  "\<not> truthy (error demo_idle_state) \<and> relevant_papers demo_idle_state = []
   \<and> analyze_papers_node demo_env (demo_idle_state, demo_world) = (demo_idle_state, demo_world)"
proof -
  have unmarked: "\<not> truthy (error demo_idle_state)"
    by (simp add: demo_idle_state_def)
  have idle: "relevant_papers demo_idle_state = []"
    by (simp add: demo_idle_state_def)
  from analyze_node_skips_empty[OF unmarked idle, of demo_env demo_world] unmarked idle
  show ?thesis by simp
qed

subsection \<open>Relevance filter\<close>

lemma zip_map_enumerate_filter:
  "[x. (x, b) \<leftarrow> zip xs (map (\<lambda>(i, x). f i x) (enumerate n xs)), b]
   = map fst (filter (\<lambda>(x, i). f i x) (zip xs [n..<n + length xs]))"
proof (induction xs arbitrary: n)
  case Nil
  then show ?case by simp
next
  case (Cons x xs)
  have "[Suc n..<Suc (n + length xs)] = [Suc n..<Suc n + length xs]" by simp
  then show ?case using Cons[of "Suc n"]
    by (simp add: upt_conv_Cons del: upt_Suc)
qed

lemma is_relevant_iff:
  "is_relevant ev i paper
   \<longleftrightarrow> (\<exists>reason. relevance_llm ev i (title paper) (abstract paper) = RelevanceResponse True reason)"
  by (auto simp: is_relevant_def split: relevance_outcome.splits)

text \<open>
  Claim C2. \<open>filter_papers\<close> returns the candidates whose own relevance call answered
  true, in the order of the input; a call that raises counts as false. The result is a
  subsequence of the input.
\<close>

theorem filter_papers_exact:
  "fst (filter_papers ev papers w)
     = map fst (filter (\<lambda>(paper, i). \<exists>reason.
                  relevance_llm ev i (title paper) (abstract paper) = RelevanceResponse True reason)
                (zip papers [0..<length papers]))
   \<and> subseq (fst (filter_papers ev papers w)) papers"
proof -
  have eq: "fst (filter_papers ev papers w)
     = map fst (filter (\<lambda>(paper, i). is_relevant ev i paper) (zip papers [0..<length papers]))"
    using zip_map_enumerate_filter[of papers "is_relevant ev" 0]
    by (simp add: filter_papers_def Let_def)
  have "subseq (map fst (filter (\<lambda>(paper, i). is_relevant ev i paper) (zip papers [0..<length papers])))
          (map fst (zip papers [0..<length papers]))"
    by (intro subseq_map subseq_filter_left)
  then have "subseq (fst (filter_papers ev papers w)) papers"
    by (simp add: eq)
  then show ?thesis by (simp add: eq is_relevant_iff)
qed

text \<open>
  Two candidates: the call for the first answers true, the call for the second raises.
\<close>

theorem filter_papers_exact_witness:
  "fst (filter_papers demo_env [demo_paper, demo_blank_paper] demo_world) = [demo_paper]"
  using filter_papers_exact[of demo_env "[demo_paper, demo_blank_paper]" demo_world]
  by (simp add: demo_env_def upt_rec)

subsection \<open>Batch analysis\<close>

lemma keep_analyzed_all: "list_all isinstance_AnalyzedPaper (keep_analyzed results)"
  by (simp add: keep_analyzed_def list_all_iff)

lemma length_papers_of: "length (papers_of rs) \<le> length rs"
  by (induction rs rule: papers_of.induct) auto

lemma set_papers_of: "a \<in> set (papers_of rs) \<longleftrightarrow> GotPaper a \<in> set rs"
  by (induction rs rule: papers_of.induct) auto

lemma analyze_paper_metadata:
  "fst (analyze_paper ev i paper) = Some a \<Longrightarrow> metadata a = paper"
  by (auto simp: analyze_paper_def Let_def split: if_splits analysis_outcome.splits)

lemma gathered_paper_from_input:
  assumes "GotPaper a \<in> set (fst (gather_analysis ev papers))"
  shows "metadata a \<in> set papers"
proof -
  from assms obtain i paper where ip: "(i, paper) \<in> set (enumerate 0 papers)"
    and g: "GotPaper a = gathered_of (fst (analyze_paper ev i paper))"
    by (auto simp: gather_analysis_def Let_def)
  from g have "fst (analyze_paper ev i paper) = Some a"
    by (cases "fst (analyze_paper ev i paper)") auto
  then have "metadata a = paper" by (rule analyze_paper_metadata)
  moreover from ip have "paper \<in> set papers" by (auto simp: in_set_enumerate_eq)
  ultimately show ?thesis by simp
qed

text \<open>
  The analyze node stores the result of the batch operation, or leaves the list as it was.
\<close>

lemma analyze_node_result:
  "analyzed_papers (fst (analyze_papers_node ev (state, w))) = analyzed_papers state
   \<or> analyzed_papers (fst (analyze_papers_node ev (state, w))) = fst (analyze_all ev (relevant_papers state))"
  by (auto simp: analyze_papers_node_def Let_def split: option.splits prod.splits sum.splits)

text \<open>
  Claim C3. What the analyze node keeps of the gathered results holds neither \<open>None\<close>
  nor an exception; the list of analyzed papers is at most as long as the list of
  candidates; and the identifier of every analyzed paper is the identifier of a candidate
  of the input.
\<close>

theorem analyze_all_sound:
  "(\<forall>r \<in> set (keep_analyzed (fst (gather_analysis ev papers))).
      r \<noteq> GotNone \<and> (\<forall>e. r \<noteq> GotException e))
   \<and> length (fst (analyze_all ev papers)) \<le> length papers
   \<and> (\<forall>a \<in> set (fst (analyze_all ev papers)).
        \<exists>paper \<in> set papers. paper_id (metadata a) = paper_id paper)"
proof -
  have no_null: "r \<noteq> GotNone \<and> (\<forall>e. r \<noteq> GotException e)"
    if "r \<in> set (keep_analyzed (fst (gather_analysis ev papers)))" for r
  proof -
    from that have "isinstance_AnalyzedPaper r" by (simp add: keep_analyzed_def)
    then show ?thesis by (cases r) auto
  qed
  have "length (fst (analyze_all ev papers)) \<le> length (keep_analyzed (fst (gather_analysis ev papers)))"
    by (simp add: analyze_all_def split_beta length_papers_of)
  also have "\<dots> \<le> length (fst (gather_analysis ev papers))"
    by (simp add: keep_analyzed_def)
  also have "\<dots> = length papers"
    by (simp add: gather_analysis_def Let_def)
  finally have shorter: "length (fst (analyze_all ev papers)) \<le> length papers" .
  have from_input: "\<exists>paper \<in> set papers. paper_id (metadata a) = paper_id paper"
    if "a \<in> set (fst (analyze_all ev papers))" for a
  proof -
    from that have "GotPaper a \<in> set (fst (gather_analysis ev papers))"
      by (simp add: analyze_all_def split_beta set_papers_of keep_analyzed_def)
    then have "metadata a \<in> set papers" by (rule gathered_paper_from_input)
    then show ?thesis by blast
  qed
  from no_null shorter from_input show ?thesis by blast
qed

text \<open>
  Two candidates: the first is analyzed, the document of the second has no text.
\<close>

lemma demo_download:
  "download_and_parse_pdf demo_env i (pdf_url demo_paper) = ''Code: https://github.com/test/repo .''"
  by (simp add: download_and_parse_pdf_def demo_env_def demo_paper_def strip_def is_space_def)

lemma demo_links:
  "extract_resource_links ''Code: https://github.com/test/repo .''
     = [(''github'', ''https://github.com/test/repo''), (''huggingface'', []), (''project_page'', [])]"
  by (simp add: extract_resource_links_def github_pattern_def huggingface_pattern_def
        is_word_or_dash_def is_word_def)

lemma demo_analyze_paper:
  "fst (analyze_paper demo_env i demo_paper) = Some demo_analyzed"
  by (simp add: analyze_paper_def demo_download demo_links max_text_length_def)
     (simp add: demo_env_def demo_result_def demo_analyzed_def dict_of_pairs_def)

lemma demo_blank_download:
  "download_and_parse_pdf demo_env i (pdf_url demo_blank_paper) = []"
  by (simp add: download_and_parse_pdf_def demo_env_def demo_blank_paper_def strip_def is_space_def)

lemma demo_analyze_all:
  "fst (analyze_all demo_env [demo_paper, demo_blank_paper]) = [demo_analyzed]"
  using demo_analyze_paper[of 0]
  by (simp add: analyze_all_def gather_analysis_def keep_analyzed_def split_beta
        analyze_paper_def[of demo_env "Suc 0" demo_blank_paper] demo_blank_download)

theorem analyze_all_sound_witness:
  "fst (analyze_all demo_env [demo_paper, demo_blank_paper]) = [demo_analyzed]
   \<and> length (fst (analyze_all demo_env [demo_paper, demo_blank_paper])) \<le> length [demo_paper, demo_blank_paper]
   \<and> paper_id (metadata demo_analyzed) \<in> paper_id ` set [demo_paper, demo_blank_paper]"
proof -
  note sound = analyze_all_sound[of demo_env "[demo_paper, demo_blank_paper]"]
  have "demo_analyzed \<in> set (fst (analyze_all demo_env [demo_paper, demo_blank_paper]))"
    by (simp add: demo_analyze_all)
  with sound have "\<exists>paper \<in> set [demo_paper, demo_blank_paper].
      paper_id (metadata demo_analyzed) = paper_id paper"
    by blast
  then have "paper_id (metadata demo_analyzed) \<in> paper_id ` set [demo_paper, demo_blank_paper]"
    by (rule bexE) (rule image_eqI)
  with sound demo_analyze_all show ?thesis by simp
qed

subsection \<open>Documents without text\<close>

lemma all_dropWhile: "(\<forall>x \<in> set (dropWhile P s). P x) \<longleftrightarrow> (\<forall>x \<in> set s. P x)"
  by (induction s) auto

lemma strip_Nil_iff: "strip s = [] \<longleftrightarrow> list_all is_space s"
  by (simp add: strip_def dropWhile_eq_Nil_conv list_all_iff all_dropWhile)

lemma is_space_blank: "is_space CHR '' ''"
  by (simp add: is_space_def)

lemma set_sub_spaces:
  "set (sub_spaces s) = {c \<in> set s. \<not> is_space c} \<union> (if list_ex is_space s then {CHR '' ''} else {})"
proof (induction s rule: sub_spaces.induct)
  case 1
  then show ?case by simp
next
  case (2 c cs)
  show ?case
  proof (cases "is_space c")
    case True
    have "{x \<in> set (dropWhile is_space cs). \<not> is_space x} = {x \<in> set cs. \<not> is_space x}"
      by (induction cs) auto
    with True 2 show ?thesis by (auto simp: list_ex_iff)
  next
    case False
    with 2 show ?thesis by (auto simp: list_ex_iff)
  qed
qed

lemma collapsed_empty_iff: "strip (sub_spaces text) = [] \<longleftrightarrow> list_all is_space text"
  by (auto simp: strip_Nil_iff set_sub_spaces list_all_iff list_ex_iff is_space_blank split: if_splits)

text \<open>
  Claim C10. If the document of a candidate is downloaded and parsed without an
  exception, and its text is empty after whitespace is collapsed and stripped, then
  \<open>_download_and_parse_pdf\<close> returns the empty string, \<open>analyze_paper\<close> returns \<open>None\<close>
  after the download alone, without calling the model, and this is the result it has
  when the download or the extraction fails.
\<close>

theorem empty_text_dropped:
  assumes "http_get ev i (pdf_url paper) = HttpBody pdf_content"
    and "pdf_text ev pdf_content = Inr text"
    and "strip (sub_spaces text) = []"
  shows "download_and_parse_pdf ev i (pdf_url paper) = []
       \<and> analyze_paper ev i paper = (None, [HttpGet (pdf_url paper)])
       \<and> (http_get ev' i (pdf_url paper) = HttpRaisesRequestError
            \<or> http_get ev' i (pdf_url paper) = HttpBadStatus
            \<or> (\<exists>content e. http_get ev' i (pdf_url paper) = HttpBody content
                  \<and> pdf_text ev' content = Inl e)
          \<longrightarrow> analyze_paper ev' i paper = analyze_paper ev i paper)"
  using assms by (auto simp: analyze_paper_def download_and_parse_pdf_def)

text \<open>
  A document whose text is a space, a line feed and a tab, and the same candidate when
  every download fails.
\<close>

theorem empty_text_dropped_witness:
  "http_get demo_env 0 (pdf_url demo_blank_paper) = HttpBody ''pdf-2''
   \<and> pdf_text demo_env ''pdf-2'' = Inr [CHR '' '', CHR 0x0A, CHR 0x09]
   \<and> strip (sub_spaces [CHR '' '', CHR 0x0A, CHR 0x09]) = []
   \<and> analyze_paper demo_env 0 demo_blank_paper = (None, [HttpGet (pdf_url demo_blank_paper)])
   \<and> http_get demo_offline_env 0 (pdf_url demo_blank_paper) = HttpRaisesRequestError
   \<and> analyze_paper demo_offline_env 0 demo_blank_paper = analyze_paper demo_env 0 demo_blank_paper"
proof -
  have got: "http_get demo_env 0 (pdf_url demo_blank_paper) = HttpBody ''pdf-2''"
    by (simp add: demo_env_def demo_blank_paper_def)
  have parsed: "pdf_text demo_env ''pdf-2'' = Inr [CHR '' '', CHR 0x0A, CHR 0x09]"
    by (simp add: demo_env_def)
  have blank: "strip (sub_spaces [CHR '' '', CHR 0x0A, CHR 0x09]) = []"
    by (simp add: strip_def is_space_def)
  have offline: "http_get demo_offline_env 0 (pdf_url demo_blank_paper) = HttpRaisesRequestError"
    by (simp add: demo_offline_env_def)
  from empty_text_dropped[OF got parsed blank, of demo_offline_env] got parsed blank offline
  show ?thesis by simp
qed

subsection \<open>Dedup cache\<close>

lemma py_key_JStr: "py_key x = JStr s \<longleftrightarrow> x = JStr s"
  by (cases x) auto

lemma first_of_equal_subset: "set (first_of_equal seen xs) \<subseteq> set xs"
  by (induction xs arbitrary: seen) auto

lemma first_of_equal_keys:
  "distinct (map py_key (first_of_equal seen xs))
   \<and> py_key ` set (first_of_equal seen xs) \<inter> set seen = {}"
proof (induction xs arbitrary: seen)
  case Nil
  then show ?case by simp
next
  case (Cons x xs)
  show ?case
  proof (cases "py_key x \<in> set seen")
    case True
    with Cons[of seen] show ?thesis by simp
  next
    case False
    with Cons[of "py_key x # seen"] show ?thesis by auto
  qed
qed

lemma first_of_equal_inj: "inj_on py_key (set (first_of_equal seen xs))"
  using first_of_equal_keys[of seen xs] by (simp add: distinct_map)

lemma first_of_equal_keeps:
  "inj_on py_key (set xs) \<Longrightarrow>
   set (first_of_equal seen xs) = {x \<in> set xs. py_key x \<notin> set seen}"
proof (induction xs arbitrary: seen)
  case Nil
  then show ?case by simp
next
  case (Cons x xs)
  from Cons.prems have inj: "inj_on py_key (set xs)"
    and same: "\<And>y. y \<in> set xs \<Longrightarrow> py_key y = py_key x \<Longrightarrow> y = x"
    by (auto simp: inj_on_def)
  show ?case
  proof (cases "py_key x \<in> set seen")
    case True
    with Cons.IH[OF inj, of seen] show ?thesis by auto
  next
    case False
    with Cons.IH[OF inj, of "py_key x # seen"] same show ?thesis by auto
  qed
qed

lemma py_set_elements:
  "py_set v = Inr S \<Longrightarrow> inj_on py_key S \<and> (\<forall>x \<in> S. hashable x)"
proof (cases v)
  case (JArr xs)
  assume "py_set v = Inr S"
  with JArr have all: "list_all hashable xs" and S: "S = set (first_of_equal [] xs)"
    by (auto split: if_splits)
  from all first_of_equal_subset[of "[]" xs] have "\<forall>x \<in> S. hashable x"
    by (auto simp: S list_all_iff)
  with first_of_equal_inj[of "[]" xs] show ?thesis by (simp add: S)
qed (auto simp: inj_on_def)

lemma read_cache_elements:
  "read_cache f = Inr S \<Longrightarrow> inj_on py_key S \<and> (\<forall>x \<in> S. hashable x)"
  by (cases f) (auto simp: decode_ids_def split: sum.splits dest: py_set_elements)

lemma add_ids_elements:
  assumes "inj_on py_key S \<and> (\<forall>x \<in> S. hashable x)"
  shows "inj_on py_key (S \<union> JStr ` A) \<and> (\<forall>x \<in> S \<union> JStr ` A. hashable x)"
proof -
  have "x = y" if "x \<in> S \<union> JStr ` A" "y \<in> S \<union> JStr ` A" "py_key x = py_key y" for x y
  proof (cases "x \<in> S \<and> y \<in> S")
    case True
    with assms that(3) show ?thesis by (auto simp: inj_on_def)
  next
    case False
    with that(1,2) obtain s where "x = JStr s \<or> y = JStr s" by auto
    with that(3) show ?thesis by (metis py_key.simps(5) py_key_JStr)
  qed
  then have "inj_on py_key (S \<union> JStr ` A)" by (auto simp: inj_on_def)
  with assms show ?thesis by auto
qed

lemma read_written:
  assumes "set xs = S" and "inj_on py_key S \<and> (\<forall>x \<in> S. hashable x)"
  shows "read_cache (Holds (JObj [(''processed_ids'', JArr xs)])) = Inr S"
proof -
  from assms have "list_all hashable xs" by (auto simp: list_all_iff)
  moreover from assms have "set (first_of_equal [] xs) = set xs"
    by (simp add: first_of_equal_keeps)
  ultimately show ?thesis using assms(1) by (simp add: decode_ids_def)
qed

lemma save_ok:
  assumes "read_cache (cache w) = Inr E" and "cache_write ev = WriteOk"
    and "\<And>v. set (set_order ev v (E \<union> JStr ` A)) = E \<union> JStr ` A"
  shows "read_cache (cache (snd (save_processed_ids ev A w))) = Inr (E \<union> JStr ` A)"
proof -
  from assms(1) have "inj_on py_key (E \<union> JStr ` A) \<and> (\<forall>x \<in> E \<union> JStr ` A. hashable x)"
    by (intro add_ids_elements read_cache_elements)
  with assms(3) have "read_cache (Holds (JObj [(''processed_ids'',
        JArr (set_order ev (w\<lparr>trace := trace w @ [CacheRead]\<rparr>) (E \<union> JStr ` A)))]))
      = Inr (E \<union> JStr ` A)"
    by (intro read_written) auto
  with assms(1,2) show ?thesis
    by (simp add: save_processed_ids_def load_processed_ids_def)
qed

text \<open>
  Claim C4, as amended. Let the cache load as the set \<open>E\<close> (the empty cache is \<open>E = {}\<close>),
  let writing succeed, and let Python list each set it writes completely, in whatever
  order. Then saving \<open>A\<close>, saving \<open>B\<close> and loading gives \<open>E\<close> with \<open>A\<close> and \<open>B\<close>; and after
  saving \<open>A\<close> twice the cache file decodes to the same set of ids as after saving \<open>A\<close>
  once.
\<close>

theorem save_save_load:
  assumes "read_cache (cache w) = Inr E" and "cache_write ev = WriteOk"
    and "\<And>v. set (set_order ev v (E \<union> JStr ` A)) = E \<union> JStr ` A"
    and "\<And>v. set (set_order ev v (E \<union> JStr ` A \<union> JStr ` B)) = E \<union> JStr ` A \<union> JStr ` B"
  shows "fst (load_processed_ids (snd (save_processed_ids ev B (snd (save_processed_ids ev A w)))))
           = Inr (E \<union> JStr ` (A \<union> B))
       \<and> read_cache (cache (snd (save_processed_ids ev A (snd (save_processed_ids ev A w)))))
           = read_cache (cache (snd (save_processed_ids ev A w)))"
proof -
  let ?w1 = "snd (save_processed_ids ev A w)"
  have one: "read_cache (cache ?w1) = Inr (E \<union> JStr ` A)"
    using assms(1-3) by (rule save_ok)
  have two: "read_cache (cache (snd (save_processed_ids ev B ?w1))) = Inr (E \<union> JStr ` A \<union> JStr ` B)"
    using one assms(2,4) by (rule save_ok)
  have same: "E \<union> JStr ` A \<union> JStr ` A = E \<union> JStr ` A" by auto
  have "read_cache (cache (snd (save_processed_ids ev A ?w1))) = Inr (E \<union> JStr ` A \<union> JStr ` A)"
    using one assms(2) by (rule save_ok) (simp add: same assms(3))
  then have again: "read_cache (cache (snd (save_processed_ids ev A ?w1))) = Inr (E \<union> JStr ` A)"
    by (simp add: same)
  from one two again show ?thesis
    by (simp add: load_processed_ids_def image_Un Un_assoc)
qed

text \<open>
  From a missing cache file: save \<open>{a}\<close>, save \<open>{b}\<close>, load; and save \<open>{a}\<close> twice.
\<close>

lemma demo_order_a: "set (set_order demo_env v ({} \<union> JStr ` {''a''})) = {} \<union> JStr ` {''a''}"
  by (simp add: demo_env_def)

lemma demo_order_ab:
  "set (set_order demo_env v ({} \<union> JStr ` {''a''} \<union> JStr ` {''b''}))
     = {} \<union> JStr ` {''a''} \<union> JStr ` {''b''}"
  by (auto simp: demo_env_def)

theorem save_save_load_witness:
  "fst (load_processed_ids (snd (save_processed_ids demo_env {''b''}
         (snd (save_processed_ids demo_env {''a''} demo_world)))))
     = Inr {JStr ''a'', JStr ''b''}
   \<and> read_cache (cache (snd (save_processed_ids demo_env {''a''}
         (snd (save_processed_ids demo_env {''a''} demo_world)))))
     = Inr {JStr ''a''}"
proof -
  have h1: "read_cache (cache demo_world) = Inr {}" by (simp add: demo_world_def)
  have h2: "cache_write demo_env = WriteOk" by (simp add: demo_env_def)
  have once: "read_cache (cache (snd (save_processed_ids demo_env {''a''} demo_world))) = Inr {JStr ''a''}"
    using save_ok[OF h1 h2 demo_order_a] by simp
  from save_save_load[OF h1 h2 demo_order_a demo_order_ab] once show ?thesis
    by (simp add: insert_commute)
qed

text \<open>
  Claim C4 as stated fails for the stored content: with an iteration order that depends
  on how the set was built, the second save of the same two ids writes the list in the
  other order. The first save builds the set from the new ids alone, the second from the
  list read back from the file.
\<close>

theorem save_twice_changes_file:
  "cache (snd (save_processed_ids demo_env {''a'', ''b''} demo_world))
     = Holds (JObj [(''processed_ids'', JArr [JStr ''a'', JStr ''b''])])
   \<and> cache (snd (save_processed_ids demo_env {''a'', ''b''}
              (snd (save_processed_ids demo_env {''a'', ''b''} demo_world))))
     = Holds (JObj [(''processed_ids'', JArr [JStr ''b'', JStr ''a''])])"
proof -
  have first: "snd (save_processed_ids demo_env {''a'', ''b''} demo_world)
     = \<lparr>cache = Holds (JObj [(''processed_ids'', JArr [JStr ''a'', JStr ''b''])]),
        trace = [CacheRead, CacheWrite]\<rparr>"
    by (simp add: save_processed_ids_def load_processed_ids_def demo_world_def demo_env_def)
  have "{JStr ''a'', JStr ''b''} \<union> JStr ` {''a'', ''b''} = {JStr ''a'', JStr ''b''}"
    by auto
  then have second: "cache (snd (save_processed_ids demo_env {''a'', ''b''}
        \<lparr>cache = Holds (JObj [(''processed_ids'', JArr [JStr ''a'', JStr ''b''])]),
         trace = [CacheRead, CacheWrite]\<rparr>))
     = Holds (JObj [(''processed_ids'', JArr [JStr ''b'', JStr ''a''])])"
    by (simp add: save_processed_ids_def load_processed_ids_def decode_ids_def demo_env_def)
  from first second show ?thesis by simp
qed

text \<open>
  Claim C5. \<open>load_processed_ids\<close> raises on a cache file whose content is valid JSON
  but not an object, on one whose \<open>processed_ids\<close> member is \<open>null\<close>, and on one that is
  not UTF-8: the handler names \<open>JSONDecodeError\<close> and \<open>IOError\<close> only.
\<close>

theorem load_raises_on_wrong_shape:
  "fst (load_processed_ids \<lparr>cache = Holds (JArr []), trace = []\<rparr>) = Inl AttributeError
   \<and> fst (load_processed_ids \<lparr>cache = Holds (JObj [(''processed_ids'', JNull)]), trace = []\<rparr>) = Inl TypeError
   \<and> fst (load_processed_ids \<lparr>cache = Undecodable, trace = []\<rparr>) = Inl UnicodeDecodeError"
  by (simp add: load_processed_ids_def decode_ids_def)

lemma load_handled_cases:
  "f \<in> {Absent, Unopenable, Malformed} \<Longrightarrow> fst (load_processed_ids \<lparr>cache = f, trace = t\<rparr>) = Inr {}"
  by (auto simp: load_processed_ids_def)

text \<open>
  In the filter node the exception sets the error marker: a cache file of the wrong
  shape fails the run.
\<close>

lemma filter_node_fails_on_wrong_shape:
  assumes "\<not> truthy (error state)" and "llm_client_init ev = None"
    and "read_cache (cache w) = Inl e"
  shows "error (fst (filter_papers_node ev (state, w))) = Some ''Failed to filter papers for relevance.''"
  using assms
  by (simp add: filter_papers_node_def filter_papers_def load_processed_ids_def Let_def)

subsection \<open>Resource links\<close>

text \<open>
  The two kinds with a pattern take the first match, or stay empty.
\<close>

lemma github_first_match:
  "map_of (extract_resource_links text) ''github''
     = Some (case findall github_pattern text of [] \<Rightarrow> [] | m # ms \<Rightarrow> m)"
  by (simp add: extract_resource_links_def Let_def update_conv' split: list.splits)

lemma huggingface_first_match:
  "map_of (extract_resource_links text) ''huggingface''
     = Some (case findall huggingface_pattern text of [] \<Rightarrow> [] | m # ms \<Rightarrow> m)"
  by (simp add: extract_resource_links_def Let_def update_conv' split: list.splits)

text \<open>
  On the text of \<open>test_extract_resource_links\<close> the Hugging Face pattern stops at the
  first path segment; the test expects the link with both segments.
\<close>

lemma huggingface_test_input:
  "map_of (extract_resource_links
      ''Code: https://github.com/test/repo. Model: https://huggingface.co/test/model.'') ''huggingface''
   = Some ''https://huggingface.co/test''"
  by (simp add: extract_resource_links_def github_pattern_def huggingface_pattern_def
        is_word_or_dash_def is_word_def)

text \<open>
  Claim C7. On a text that names the page of a project, and on every other text,
  \<open>_extract_resource_links\<close> leaves \<open>project_page\<close> empty: no pattern is matched for this
  kind of link.
\<close>

theorem project_page_never_found:
  "extract_resource_links ''Project page: https://example.org/demo''
     = [(''github'', []), (''huggingface'', []), (''project_page'', [])]
   \<and> map_of (extract_resource_links text) ''project_page'' = Some []"
proof -
  have "extract_resource_links ''Project page: https://example.org/demo''
     = [(''github'', []), (''huggingface'', []), (''project_page'', [])]"
    by (simp add: extract_resource_links_def github_pattern_def huggingface_pattern_def
          is_word_or_dash_def is_word_def)
  moreover have "map_of (extract_resource_links text) ''project_page'' = Some []"
    by (simp add: extract_resource_links_def Let_def split: list.splits)
  ultimately show ?thesis by simp
qed

lemma extract_keys:
  "map fst (extract_resource_links text) = [''github'', ''huggingface'', ''project_page'']"
  by (simp add: extract_resource_links_def Let_def split: list.splits)

subsection \<open>Publication window of the fetchers\<close>





lemma search_arxiv_complete:
  "result \<in> set results \<Longrightarrow> published result > now - one_day \<Longrightarrow>
   resolve_pdf_url result = Some link \<Longrightarrow> link \<noteq> [] \<Longrightarrow>
   arxiv_candidate result link \<in> set (search_arxiv now results)"
  by (induction results) (auto simp: Let_def split: option.splits)

lemma split_on_not_Nil: "split_on sep s \<noteq> []"
  by (induction s) (auto split: list.splits)

lemma scrape_returns_candidate_iff:
  "scrape_and_create_chemrxiv_candidate item \<noteq> None
   \<longleftrightarrow> truthy (chem_asset_url item) \<and> chem_id item \<noteq> None
       \<and> chem_title item \<noteq> None \<and> chem_abstract item \<noteq> None"
  by (auto simp: scrape_and_create_chemrxiv_candidate_def split: option.splits)





subsection \<open>Report synthesizer\<close>



lemma plain_line_append [simp]: "plain_line (a @ b) \<longleftrightarrow> plain_line a \<and> plain_line b"
  by (simp add: plain_line_def)

lemma plain_line_Nil [simp]: "plain_line []"
  by (simp add: plain_line_def)

lemma plain_line_Cons [simp]: "plain_line (c # cs) \<longleftrightarrow> c \<noteq> CHR 0x0A \<and> plain_line cs"
  by (simp add: plain_line_def)















end
